theory Spec2Isabelle
  imports Main "HOL-Library.Word"
begin

section \<open>Data model of the wallet commands\<close>

text \<open>
  Go strings are \<open>string\<close>, byte slices are lists of 8-bit words, \<open>uint32\<close> is
  \<open>32 word\<close>. A Go pointer that may be \<open>nil\<close> is an \<open>option\<close>.
\<close>

type_synonym bytes = "8 word list"

subsection \<open>Errors\<close>

text \<open>
  The sentinel errors of \<open>errors.go\<close> (and of the \<open>util\<close> package, as
  \<open>contract_commands.go\<close> names them). \<open>fmt.Errorf("%w: <text>", sentinel)\<close> is
  \<open>Wrapped sentinel text\<close> and \<open>fmt.Errorf("%w: %s", sentinel, err)\<close> is
  \<open>WrappedErr sentinel err\<close>; \<open>strconv\<close>'s \<open>*NumError\<close> (function, input, cause) is
  \<open>NumError\<close>; an error of a collaborator that the commands pass through unread is
  \<open>Opaque\<close>.
\<close>

datatype sentinel =
    ErrEmptyCommandName | ErrUnknownCommand | ErrNotEnoughArguments | ErrMissingParam
  | ErrInvalidString | ErrEmptyParam | ErrUnexpectedHashLength | ErrEmptyPassphrase
  | ErrWalletExists | ErrWalletClosed | ErrWalletDecrypt | ErrContract | ErrInvalidABI

datatype num_err = ErrSyntax | ErrRange

datatype go_error =
    Sentinel sentinel
  | Wrapped sentinel string
  | WrappedErr sentinel go_error
  | NumError string string num_err
  | Opaque string

text \<open>\<open>errors.Is(err, sentinel)\<close>.\<close>

fun error_is :: "go_error \<Rightarrow> sentinel \<Rightarrow> bool" where
  "error_is (Sentinel s) t = (s = t)"
| "error_is (Wrapped s _) t = (s = t)"
| "error_is (WrappedErr s _) t = (s = t)"
| "error_is _ _ = False"

text \<open>
  What one \<open>Execute\<close> call ends in: a result, an error value (the session goes on), a
  panic (the process dies), or \<open>os.Exit\<close>.
\<close>

datatype 'a outcome = Ok 'a | Err go_error | Panic string | Exited int

subsection \<open>\<open>strconv.ParseInt\<close> for an explicit base\<close>

text \<open>
  Go's \<open>strconv.ParseInt(s, base, bitSize)\<close> for \<open>2 \<le> base \<le> 36\<close> (no prefix and no
  underscore is read unless the base is 0): an optional sign, then at least one digit;
  a character that is no digit of the base is a syntax error; a value that does not fit
  is a range error, reported where the scan first meets it.
\<close>

definition digit_val :: "char \<Rightarrow> nat option" where
  "digit_val c =
     (let n = of_char c :: nat in
      if 48 \<le> n \<and> n \<le> 57 then Some (n - 48)
      else if 97 \<le> n \<and> n \<le> 122 then Some (n - 97 + 10)
      else if 65 \<le> n \<and> n \<le> 90 then Some (n - 65 + 10)
      else None)"

text \<open>The digit loop of \<open>ParseUint\<close>: \<open>maxVal\<close> is \<open>2 ^ bitSize - 1\<close>.\<close>

fun parse_digits :: "nat \<Rightarrow> nat \<Rightarrow> nat \<Rightarrow> string \<Rightarrow> num_err + nat" where
  "parse_digits base maxVal n [] = Inr n"
| "parse_digits base maxVal n (c # cs) =
     (case digit_val c of
        None \<Rightarrow> Inl ErrSyntax
      | Some d \<Rightarrow>
          if d \<ge> base then Inl ErrSyntax
          else if n * base + d > maxVal then Inl ErrRange
          else parse_digits base maxVal (n * base + d) cs)"

definition ParseUint :: "string \<Rightarrow> nat \<Rightarrow> nat \<Rightarrow> num_err + nat" where
  "ParseUint s base bitSize =
     (if s = [] then Inl ErrSyntax else parse_digits base (2 ^ bitSize - 1) 0 s)"

definition ParseInt :: "string \<Rightarrow> nat \<Rightarrow> nat \<Rightarrow> go_error + int" where
  "ParseInt s0 base bitSize =
     (if s0 = [] then Inl (NumError ''ParseInt'' s0 ErrSyntax)
      else
        let neg = (hd s0 = CHR ''-'');
            s = (if hd s0 = CHR ''+'' \<or> hd s0 = CHR ''-'' then tl s0 else s0);
            cutoff = (2::nat) ^ (bitSize - 1)
        in case ParseUint s base bitSize of
             Inl ErrSyntax \<Rightarrow> Inl (NumError ''ParseInt'' s0 ErrSyntax)
           | Inl ErrRange \<Rightarrow> Inl (NumError ''ParseInt'' s0 ErrRange)
           | Inr un \<Rightarrow>
               if \<not> neg \<and> un \<ge> cutoff then Inl (NumError ''ParseInt'' s0 ErrRange)
               else if neg \<and> un > cutoff then Inl (NumError ''ParseInt'' s0 ErrRange)
               else Inr (if neg then - int un else int un))"

text \<open>
  \<open>strconv.ParseInt(method.EntryPoint[2:], 16, 32)\<close>, as both contract commands read
  the entry point. The slice \<open>[2:]\<close> of a string shorter than two bytes panics.
\<close>

definition entryPointOf :: "string \<Rightarrow> int outcome" where
  "entryPointOf ep =
     (if length ep < 2 then Panic ''slice bounds out of range''
      else case ParseInt (drop 2 ep) 16 32 of
             Inl e \<Rightarrow> Err e
           | Inr n \<Rightarrow> Ok n)"

subsection \<open>ABI, schema descriptors, contracts\<close>

text \<open>
  The ABI document as \<open>RegisterCommand.Execute\<close> reads it: \<open>abi.Methods\<close> (each with
  \<open>Name\<close>, \<open>Description\<close>, \<open>EntryPoint\<close>, \<open>Argument\<close>, \<open>ReadOnly\<close>; \<open>Return\<close> is the
  return type name of the document) and \<open>abi.Types\<close>.
\<close>

record ABIMethod =
  Name :: string
  Description :: string
  EntryPoint :: string
  Argument :: string
  Return :: string
  ReadOnly :: bool

record ABI =
  Methods :: "ABIMethod list"
  Types :: bytes

text \<open>
  What the commands use of protobuf's reflection: a file descriptor holds message
  descriptors, found by name; a message descriptor holds its fields in order.
\<close>

datatype Kind = BoolKind | Int32Kind | Int64Kind | Uint32Kind | Uint64Kind
  | StringKind | BytesKind | MessageKind string

record FieldDescriptor =
  field_Name :: string
  field_Kind :: Kind

record MessageDescriptor =
  message_Name :: string
  Fields :: "FieldDescriptor list"

record FileDescriptor =
  Path :: string
  Messages :: "MessageDescriptor list"

type_synonym FileDescriptorSet = "FileDescriptor list"

text \<open>\<open>fDesc.Messages().ByName(name)\<close>: \<open>nil\<close> when no message has the name.\<close>

definition ByName :: "MessageDescriptor list \<Rightarrow> string \<Rightarrow> MessageDescriptor option" where
  "ByName ms n = find (\<lambda>d. message_Name d = n) ms"

text \<open>A dynamic protobuf message: its type name and its populated fields.\<close>

datatype message = DynamicMessage string "(string \<times> bytes) list"

record ContractInfo =
  contract_Name :: string
  contract_Address :: string
  contract_ABI :: ABI
  contract_FileDescriptor :: FileDescriptor

type_synonym Contracts = "string \<rightharpoonup> ContractInfo"

subsection \<open>Command declarations and the execution environment\<close>

datatype CommandArgType = Address | String

record CommandArg =
  arg_Name :: string
  ArgType :: CommandArgType

definition NewCommandArg :: "string \<Rightarrow> CommandArgType \<Rightarrow> CommandArg" where
  "NewCommandArg name argType = \<lparr>arg_Name = name, ArgType = argType\<rparr>"

text \<open>
  \<open>Instantiation\<close> is a function pointer to one of the constructors; the model names
  which.
\<close>

datatype command_factory =
    NewBalanceCommand | NewCreateCommand | NewGenerateKeyCommand | NewInfoCommand
  | NewOpenCommand | NewExitCommand | NewRegisterCommand
  | NewReadContractCommand | NewWriteContractCommand

record CommandDeclaration =
  decl_Name :: string
  decl_Description :: string
  Instantiation :: command_factory
  Args :: "CommandArg list"
  Hidden :: bool

definition NewCommandDeclaration ::
  "string \<Rightarrow> string \<Rightarrow> bool \<Rightarrow> command_factory \<Rightarrow> CommandArg list \<Rightarrow> CommandDeclaration" where
  "NewCommandDeclaration name description hidden inst args =
     \<lparr>decl_Name = name, decl_Description = description, Instantiation = inst,
      Args = args, Hidden = hidden\<rparr>"

definition BuildCommands :: "CommandDeclaration list" where
  "BuildCommands =
     [NewCommandDeclaration ''balance'' ''Check the balance at an address'' False
        NewBalanceCommand [NewCommandArg ''address'' Address],
      NewCommandDeclaration ''create'' ''Create and open a new wallet file'' False
        NewCreateCommand [NewCommandArg ''filename'' String, NewCommandArg ''password'' String],
      NewCommandDeclaration ''generate'' ''Generate and display a new private key'' False
        NewGenerateKeyCommand [],
      NewCommandDeclaration ''info'' ''Show the currently opened wallet's address / key'' False
        NewInfoCommand [],
      NewCommandDeclaration ''open'' ''Open a wallet file'' False
        NewOpenCommand [NewCommandArg ''filename'' String, NewCommandArg ''password'' String],
      NewCommandDeclaration ''exit'' ''Exit the wallet (quit also works)'' False
        NewExitCommand [],
      NewCommandDeclaration ''quit'' [] True NewExitCommand []]"

datatype KoinosKey = KoinosKey (PrivateBytes: bytes)

text \<open>
  \<open>ExecutionEnvironment\<close>: the fields of the struct, and \<open>Contracts\<close> and
  \<open>Parser.Commands\<close> as \<open>contract_commands.go\<close> uses them. The RPC client is a handle to
  the outside and lives with the other collaborators below.
\<close>

record ExecutionEnvironment =
  KoinContractID :: "bytes option"
  KoinBalanceOfEntry :: "32 word"
  Key :: "KoinosKey option"
  Contracts :: Contracts
  Commands :: "CommandDeclaration list"

definition IsWalletOpen :: "ExecutionEnvironment \<Rightarrow> bool" where
  "IsWalletOpen ee = (Key ee \<noteq> None)"

record ExecutionResult =
  Message :: "string list"

definition NewExecutionResult :: ExecutionResult where
  "NewExecutionResult = \<lparr>Message = []\<rparr>"

definition AddMessage :: "string \<Rightarrow> ExecutionResult \<Rightarrow> ExecutionResult" where
  "AddMessage m er = er\<lparr>Message := Message er @ [m]\<rparr>"

record CommandParseResult =
  CommandName :: string
  ParseArgs :: "string \<rightharpoonup> string"

definition ReadContractCall :: string where "ReadContractCall = ''chain.read_contract''"
definition KoinSymbol :: string where "KoinSymbol = ''tKOIN''"
definition KoinPrecision :: nat where "KoinPrecision = 8"

record ReadContractRequest =
  req_ContractID :: bytes
  req_EntryPoint :: "32 word"
  req_Args :: bytes

subsection \<open>Collaborators outside the sources\<close>

text \<open>
  The file system, the JSON and protobuf libraries, the RPC client, the wallet file and
  key functions and the codec helpers \<open>ParseABIFields\<close> and \<open>ParseResultToMessage\<close> are
  not in the sources. The commands are modelled for any behaviour of them: each is a
  field of \<open>world\<close>, returning the error or the value the Go call returns.
  \<open>os_Stat_IsNotExist\<close> is \<open>os.IsNotExist(err)\<close> for the \<open>err\<close> of \<open>os.Stat\<close>.
\<close>

type_synonym os_File = string

record world =
  os_Open :: "string \<Rightarrow> go_error + os_File"
  os_Stat_IsNotExist :: "string \<Rightarrow> bool"
  os_Create :: "string \<Rightarrow> go_error + os_File"
  ioutil_ReadAll :: "os_File \<Rightarrow> go_error + bytes"
  json_Unmarshal :: "bytes \<Rightarrow> go_error + ABI"
  proto_Unmarshal_FileDescriptorSet :: "bytes \<Rightarrow> go_error + FileDescriptorSet"
  NewFiles :: "FileDescriptorSet \<Rightarrow> go_error + FileDescriptor list"
  ParseABIFields :: "MessageDescriptor \<Rightarrow> go_error + CommandArg list"
  ParseResultToMessage :: "CommandParseResult \<Rightarrow> Contracts \<Rightarrow> go_error + message"
  proto_Marshal :: "message \<Rightarrow> go_error + bytes"
  proto_Unmarshal :: "bytes \<Rightarrow> MessageDescriptor \<Rightarrow> go_error + message"
  prototext_Marshal :: "message \<Rightarrow> go_error + string"
  HexStringToBytes :: "string \<Rightarrow> go_error + bytes"
  ReadContract :: "bytes \<Rightarrow> bytes \<Rightarrow> 32 word \<Rightarrow> go_error + bytes"
  WriteMessageContract ::
    "message \<Rightarrow> KoinosKey option \<Rightarrow> bytes \<Rightarrow> 32 word \<Rightarrow> go_error + unit"
  Call :: "string \<Rightarrow> ReadContractRequest \<Rightarrow> go_error + bytes"
  Serialize :: "string \<Rightarrow> bytes"
  DeserializeUInt64 :: "bytes \<Rightarrow> go_error + 64 word"
  SatoshiToDecimal :: "int \<Rightarrow> nat \<Rightarrow> go_error + string"
  GenerateKoinosKey :: "go_error + KoinosKey"
  CreateWalletFile :: "os_File \<Rightarrow> string \<Rightarrow> bytes \<Rightarrow> go_error option"
  ReadWalletFile :: "os_File \<Rightarrow> string \<Rightarrow> go_error + bytes"
  NewKoinosKeysFromBytes :: "bytes \<Rightarrow> go_error + KoinosKey"
  key_Address :: "KoinosKey \<Rightarrow> string"
  key_Private :: "KoinosKey \<Rightarrow> string"

text \<open>
  The calls by which a command acts on the outside, in the order it makes them: network
  calls of the RPC client and writes to the file system.
\<close>

datatype event =
    EvReadContract bytes bytes "32 word"
  | EvWriteMessageContract message "KoinosKey option" bytes "32 word"
  | EvCall string ReadContractRequest
  | EvCreate string
  | EvCreateWalletFile os_File string bytes

type_synonym step = "ExecutionResult outcome \<times> ExecutionEnvironment \<times> event list"

subsection \<open>Contract registry and command set\<close>

text \<open>
  Modelled from the spec: the methods of \<open>ee.Contracts\<close> (\<open>Contains\<close>, \<open>Add\<close>,
  \<open>GetFromMethodName\<close>, \<open>GetMethod\<close>, \<open>GetMethodReturn\<close>) are called by the sources but
  not defined in them. The spec: \<open>contains(name) -> bool\<close>; \<open>add\<close> "rejects duplicate
  names"; \<open>getFromMethodName\<close>: "qualified name is <contract>.<method>; split on the
  last/only separator, look up the contract part"; \<open>getMethod\<close> and
  \<open>getMethodReturnSchema\<close> look the method and its return type up. The Go callers use
  \<open>GetFromMethodName\<close> and \<open>GetMethod\<close> as single pointer results, so a failed lookup is
  \<open>nil\<close> here.
\<close>

definition Contains :: "Contracts \<Rightarrow> string \<Rightarrow> bool" where
  "Contains cs name = (cs name \<noteq> None)"

definition Add ::
  "Contracts \<Rightarrow> string \<Rightarrow> string \<Rightarrow> ABI \<Rightarrow> FileDescriptor \<Rightarrow> go_error + Contracts" where
  "Add cs name address abi fd =
     (if Contains cs name then Inl (Wrapped ErrContract (''contract '' @ name @ '' already exists''))
      else Inr (cs(name \<mapsto> \<lparr>contract_Name = name, contract_Address = address,
                             contract_ABI = abi, contract_FileDescriptor = fd\<rparr>)))"

definition splitMethodName :: "string \<Rightarrow> string \<times> string" where
  "splitMethodName q =
     (if CHR ''.'' \<in> set q
      then (rev (tl (dropWhile (\<lambda>c. c \<noteq> CHR ''.'') (rev q))),
            rev (takeWhile (\<lambda>c. c \<noteq> CHR ''.'') (rev q)))
      else (q, []))"

definition GetFromMethodName :: "Contracts \<Rightarrow> string \<Rightarrow> ContractInfo option" where
  "GetFromMethodName cs q = cs (fst (splitMethodName q))"

definition GetMethod :: "Contracts \<Rightarrow> string \<Rightarrow> ABIMethod option" where
  "GetMethod cs q =
     (case GetFromMethodName cs q of
        None \<Rightarrow> None
      | Some c \<Rightarrow> find (\<lambda>m. Name m = snd (splitMethodName q)) (Methods (contract_ABI c)))"

definition GetMethodReturn :: "Contracts \<Rightarrow> string \<Rightarrow> go_error + MessageDescriptor" where
  "GetMethodReturn cs q =
     (case GetFromMethodName cs q of
        None \<Rightarrow> Inl (Wrapped ErrContract (''contract of '' @ q @ '' not found''))
      | Some c \<Rightarrow>
          (case GetMethod cs q of
             None \<Rightarrow> Inl (Wrapped ErrContract (''method '' @ q @ '' not found''))
           | Some m \<Rightarrow>
               (case ByName (Messages (contract_FileDescriptor c)) (Return m) of
                  None \<Rightarrow> Inl (Wrapped ErrInvalidABI (''could not find type '' @ Return m))
                | Some md \<Rightarrow> Inr md)))"

text \<open>
  Modelled from the spec: \<open>ee.Parser.Commands.AddCommand\<close> is called by the sources but
  not defined in them. The spec: "\<open>addCommand(decl) -> Error(DuplicateCommand)\<close> if name
  collides"; synthesized declarations "are appended".
\<close>

definition AddCommand ::
  "CommandDeclaration \<Rightarrow> CommandDeclaration list \<Rightarrow> go_error + CommandDeclaration list" where
  "AddCommand decl cmds =
     (if decl_Name decl \<in> set (map decl_Name cmds)
      then Inl (Opaque (''duplicate command '' @ decl_Name decl))
      else Inr (cmds @ [decl]))"

text \<open>A Go call statement drops what the call returns: the receiver stays as it is on an error.\<close>

definition discard_error :: "'a \<Rightarrow> go_error + 'a \<Rightarrow> 'a" where
  "discard_error old r = (case r of Inl _ \<Rightarrow> old | Inr new \<Rightarrow> new)"

section \<open>The commands\<close>

text \<open>\<open>%d\<close> of a count.\<close>

fun decimal :: "nat \<Rightarrow> string" where
  "decimal n =
     (if n < 10 then [''0123456789'' ! n]
      else decimal (n div 10) @ [''0123456789'' ! (n mod 10)])"

subsection \<open>Register\<close>

text \<open>
  The loop over \<open>abi.Methods\<close> of \<open>RegisterCommand.Execute\<close>: it returns at the first
  method that does not compile, with the command set as the methods before it left it.
\<close>

fun register_methods ::
  "world \<Rightarrow> string \<Rightarrow> FileDescriptor \<Rightarrow> ABIMethod list \<Rightarrow> CommandDeclaration list
     \<Rightarrow> go_error option \<times> CommandDeclaration list" where
  "register_methods w cname fDesc [] cmds = (None, cmds)"
| "register_methods w cname fDesc (method # rest) cmds =
     (case ByName (Messages fDesc) (Argument method) of
        None \<Rightarrow>
          (Some (Wrapped ErrInvalidABI (''could not find type '' @ Argument method)), cmds)
      | Some d \<Rightarrow>
          (case ParseABIFields w d of
             Inl e \<Rightarrow> (Some (WrappedErr ErrInvalidABI e), cmds)
           | Inr params \<Rightarrow>
               let commandName = cname @ ''.'' @ Name method;
                   cmd = (if ReadOnly method
                          then NewCommandDeclaration commandName (Description method) False
                                 NewReadContractCommand params
                          else NewCommandDeclaration commandName (Description method) False
                                 NewWriteContractCommand params)
               in register_methods w cname fDesc rest
                    (discard_error cmds (AddCommand cmd cmds))))"

text \<open>
  \<open>files, err := protoFileOpts.NewFiles(&fds)\<close>, whose \<open>err\<close> is not read: on an error
  \<open>files\<close> is \<open>nil\<close>, a registry with no file.
\<close>

definition loaded_files :: "world \<Rightarrow> FileDescriptorSet \<Rightarrow> FileDescriptor list" where
  "loaded_files w fds = (case NewFiles w fds of Inl _ \<Rightarrow> [] | Inr fs \<Rightarrow> fs)"

definition RegisterExecute ::
  "world \<Rightarrow> string \<Rightarrow> string \<Rightarrow> string \<Rightarrow> ExecutionEnvironment \<Rightarrow> step" where
  "RegisterExecute w name address abiFilename ee =
     (if Contains (Contracts ee) name
      then (Err (Wrapped ErrContract (''contract '' @ name @ '' already exists'')), ee, [])
      else
      (case os_Open w abiFilename of
        Inl e \<Rightarrow> (Err (WrappedErr ErrInvalidABI e), ee, [])
      | Inr jsonFile \<Rightarrow>
      (case ioutil_ReadAll w jsonFile of
        Inl e \<Rightarrow> (Err (WrappedErr ErrInvalidABI e), ee, [])
      | Inr jsonBytes \<Rightarrow>
      (case json_Unmarshal w jsonBytes of
        Inl e \<Rightarrow> (Err (WrappedErr ErrInvalidABI e), ee, [])
      | Inr abi \<Rightarrow>
      (case proto_Unmarshal_FileDescriptorSet w (Types abi) of
        Inl e \<Rightarrow> (Err (WrappedErr ErrInvalidABI e), ee, [])
      | Inr fds \<Rightarrow>
         (let files = loaded_files w fds in
          if length files \<noteq> 1
          then (Err (Wrapped ErrInvalidABI
                  (''expected 1 descriptor, got '' @ decimal (length files))), ee, [])
          else
            let fDesc = last files;
                ee1 = ee\<lparr>Contracts :=
                        discard_error (Contracts ee) (Add (Contracts ee) name address abi fDesc)\<rparr>;
                looped = register_methods w name fDesc (Methods abi) (Commands ee1);
                ee2 = ee1\<lparr>Commands := snd looped\<rparr>
            in (case fst looped of
                 Some e \<Rightarrow> (Err e, ee2, [])
               | None \<Rightarrow>
                   (Ok (AddMessage (''Contract '' @ [CHR 0x27] @ name @ [CHR 0x27]
                                      @ '' at address '' @ address @ '' registered.'')
                          NewExecutionResult), ee2, []))))))))"

subsection \<open>Read and write contract commands\<close>

definition uint32 :: "int \<Rightarrow> 32 word" where
  "uint32 n = word_of_int n"

definition ReadContractExecute :: "world \<Rightarrow> CommandParseResult \<Rightarrow> ExecutionEnvironment \<Rightarrow> step" where
  "ReadContractExecute w pr ee =
     (let contract = GetFromMethodName (Contracts ee) (CommandName pr) in
      case GetMethod (Contracts ee) (CommandName pr) of
        None \<Rightarrow> (Panic ''nil pointer dereference'', ee, [])
      | Some method \<Rightarrow>
      (case entryPointOf (EntryPoint method) of
        Panic p \<Rightarrow> (Panic p, ee, [])
      | Exited n \<Rightarrow> (Exited n, ee, [])
      | Err e \<Rightarrow> (Err e, ee, [])
      | Ok entryPoint \<Rightarrow>
      (case ParseResultToMessage w pr (Contracts ee) of
        Inl e \<Rightarrow> (Err (WrappedErr ErrInvalidABI e), ee, [])
      | Inr msg \<Rightarrow>
      (case proto_Marshal w msg of
        Inl e \<Rightarrow> (Err e, ee, [])
      | Inr argBytes \<Rightarrow>
      (case contract of
        None \<Rightarrow> (Panic ''nil pointer dereference'', ee, [])
      | Some c \<Rightarrow>
      (case HexStringToBytes w (contract_Address c) of
        Inl _ \<Rightarrow> (Panic ''Invalid contract ID'', ee, [])
      | Inr contractID \<Rightarrow>
          let calls = [EvReadContract argBytes contractID (uint32 entryPoint)] in
          (case ReadContract w argBytes contractID (uint32 entryPoint) of
            Inl e \<Rightarrow> (Err e, ee, calls)
          | Inr result \<Rightarrow>
          (case GetMethodReturn (Contracts ee) (CommandName pr) of
            Inl e \<Rightarrow> (Err e, ee, calls)
          | Inr md \<Rightarrow>
          (case proto_Unmarshal w result md of
            Inl e \<Rightarrow> (Err e, ee, calls)
          | Inr dMsg \<Rightarrow>
          (case prototext_Marshal w dMsg of
            Inl e \<Rightarrow> (Err e, ee, calls)
          | Inr b \<Rightarrow> (Ok (AddMessage b NewExecutionResult), ee, calls)))))))))))"

definition WriteContractExecute :: "world \<Rightarrow> CommandParseResult \<Rightarrow> ExecutionEnvironment \<Rightarrow> step" where
  "WriteContractExecute w pr ee =
     (let contract = GetFromMethodName (Contracts ee) (CommandName pr) in
      case GetMethod (Contracts ee) (CommandName pr) of
        None \<Rightarrow> (Panic ''nil pointer dereference'', ee, [])
      | Some method \<Rightarrow>
      (case entryPointOf (EntryPoint method) of
        Panic p \<Rightarrow> (Panic p, ee, [])
      | Exited n \<Rightarrow> (Exited n, ee, [])
      | Err e \<Rightarrow> (Err e, ee, [])
      | Ok entryPoint \<Rightarrow>
      (case ParseResultToMessage w pr (Contracts ee) of
        Inl e \<Rightarrow> (Err (WrappedErr ErrInvalidABI e), ee, [])
      | Inr msg \<Rightarrow>
      (case contract of
        None \<Rightarrow> (Panic ''nil pointer dereference'', ee, [])
      | Some c \<Rightarrow>
      (case HexStringToBytes w (contract_Address c) of
        Inl _ \<Rightarrow> (Panic ''Invalid contract ID'', ee, [])
      | Inr contractID \<Rightarrow>
          let calls = [EvWriteMessageContract msg (Key ee) contractID (uint32 entryPoint)] in
          (case WriteMessageContract w msg (Key ee) contractID (uint32 entryPoint) of
            Inl e \<Rightarrow> (Err e, ee, calls)
          | Inr _ \<Rightarrow>
              (Ok (AddMessage (''Transaction submitted to contract '' @ [CHR 0x27]
                                 @ contract_Name c @ [CHR 0x27] @ '' at address ''
                                 @ contract_Address c @ '' .'')
                     NewExecutionResult), ee, calls)))))))"

subsection \<open>The static commands\<close>

definition BalanceExecute :: "world \<Rightarrow> string \<Rightarrow> ExecutionEnvironment \<Rightarrow> step" where
  "BalanceExecute w address ee =
     (case KoinContractID ee of
        None \<Rightarrow> (Panic ''nil pointer dereference'', ee, [])
      | Some contractID \<Rightarrow>
          (let params = \<lparr>req_ContractID = contractID, req_EntryPoint = KoinBalanceOfEntry ee,
                         req_Args = Serialize w address\<rparr>;
               calls = [EvCall ReadContractCall params]
           in (case Call w ReadContractCall params of
                 Inl e \<Rightarrow> (Err e, ee, calls)
               | Inr result \<Rightarrow>
               (case DeserializeUInt64 w result of
                 Inl e \<Rightarrow> (Err e, ee, calls)
               | Inr balance \<Rightarrow>
               (case SatoshiToDecimal w (sint balance) KoinPrecision of
                 Inl e \<Rightarrow> (Err e, ee, calls)
               | Inr dec \<Rightarrow>
                   (Ok (AddMessage (dec @ '' '' @ KoinSymbol) NewExecutionResult), ee, calls))))))"

definition ExitExecute :: "ExecutionEnvironment \<Rightarrow> step" where
  "ExitExecute ee = (Exited 0, ee, [])"

definition GenerateKeyExecute :: "world \<Rightarrow> ExecutionEnvironment \<Rightarrow> step" where
  "GenerateKeyExecute w ee =
     (case GenerateKoinosKey w of
        Inl e \<Rightarrow> (Err e, ee, [])
      | Inr k \<Rightarrow>
          (Ok (AddMessage (''Private: '' @ key_Private w k)
                (AddMessage (''Address: '' @ key_Address w k)
                  (AddMessage
                     ''New key generated. This is only shown once, make sure to record this information.''
                     NewExecutionResult))), ee, []))"

definition CreateExecute :: "world \<Rightarrow> string \<Rightarrow> string \<Rightarrow> ExecutionEnvironment \<Rightarrow> step" where
  "CreateExecute w filename password ee =
     (if \<not> os_Stat_IsNotExist w filename
      then (Err (Wrapped ErrWalletExists filename), ee, [])
      else
      (case os_Create w filename of
        Inl e \<Rightarrow> (Err e, ee, [EvCreate filename])
      | Inr file \<Rightarrow>
      (case GenerateKoinosKey w of
        Inl e \<Rightarrow> (Err e, ee, [EvCreate filename])
      | Inr key \<Rightarrow>
      (case CreateWalletFile w file password (PrivateBytes key) of
        Some e \<Rightarrow>
          (Err e, ee, [EvCreate filename, EvCreateWalletFile file password (PrivateBytes key)])
      | None \<Rightarrow>
          (Ok (AddMessage ''Use the info command to see details''
                (AddMessage (''Created and opened new wallet: '' @ filename)
                   NewExecutionResult)),
           ee\<lparr>Key := Some key\<rparr>,
           [EvCreate filename, EvCreateWalletFile file password (PrivateBytes key)])))))"

definition InfoExecute :: "world \<Rightarrow> ExecutionEnvironment \<Rightarrow> step" where
  "InfoExecute w ee =
     (if \<not> IsWalletOpen ee
      then (Err (Wrapped ErrWalletClosed ''cannot show info''), ee, [])
      else
      (case Key ee of
        None \<Rightarrow> (Panic ''nil pointer dereference'', ee, [])
      | Some k \<Rightarrow>
          (Ok (AddMessage (''Private: '' @ key_Private w k)
                (AddMessage (''Address: '' @ key_Address w k)
                  (AddMessage ''Wallet information:'' NewExecutionResult))), ee, [])))"

definition OpenExecute :: "world \<Rightarrow> string \<Rightarrow> string \<Rightarrow> ExecutionEnvironment \<Rightarrow> step" where
  "OpenExecute w filename password ee =
     (case os_Open w filename of
        Inl e \<Rightarrow> (Err e, ee, [])
      | Inr file \<Rightarrow>
      (case ReadWalletFile w file password of
        Inl _ \<Rightarrow> (Err (Wrapped ErrWalletDecrypt ''check your password''), ee, [])
      | Inr keyBytes \<Rightarrow>
      (case NewKoinosKeysFromBytes w keyBytes of
        Inl e \<Rightarrow> (Err e, ee, [])
      | Inr key \<Rightarrow>
          (Ok (AddMessage (''Opened wallet: '' @ filename) NewExecutionResult),
           ee\<lparr>Key := Some key\<rparr>, []))))"

subsection \<open>One \<open>Execute\<close> for every command\<close>

text \<open>The implementations of \<open>CLICommand\<close>, each with the fields of its struct.\<close>

datatype CLICommand =
    BalanceCommand string
  | ExitCommand
  | GenerateKeyCommand
  | CreateCommand string string
  | InfoCommand
  | OpenCommand string string
  | RegisterCommand string string string
  | ReadContractCommand CommandParseResult
  | WriteContractCommand CommandParseResult

fun Execute :: "world \<Rightarrow> CLICommand \<Rightarrow> ExecutionEnvironment \<Rightarrow> step" where
  "Execute w (BalanceCommand address) ee = BalanceExecute w address ee"
| "Execute w ExitCommand ee = ExitExecute ee"
| "Execute w GenerateKeyCommand ee = GenerateKeyExecute w ee"
| "Execute w (CreateCommand filename password) ee = CreateExecute w filename password ee"
| "Execute w InfoCommand ee = InfoExecute w ee"
| "Execute w (OpenCommand filename password) ee = OpenExecute w filename password ee"
| "Execute w (RegisterCommand name address abiFilename) ee =
     RegisterExecute w name address abiFilename ee"
| "Execute w (ReadContractCommand pr) ee = ReadContractExecute w pr ee"
| "Execute w (WriteContractCommand pr) ee = WriteContractExecute w pr ee"

section \<open>Notions the properties are stated with\<close>

text \<open>
  A hexadecimal digit and the value of a run of them, written from the spec's
  "hex string" and independent of the parser above: \<open>0\<close>..\<open>9\<close>, \<open>a\<close>..\<open>f\<close>, \<open>A\<close>..\<open>F\<close>.
\<close>

definition is_hex_digit :: "char \<Rightarrow> bool" where
  "is_hex_digit c =
     (let n = of_char c :: nat in
      (48 \<le> n \<and> n \<le> 57) \<or> (97 \<le> n \<and> n \<le> 102) \<or> (65 \<le> n \<and> n \<le> 70))"

definition hex_digit_value :: "char \<Rightarrow> nat" where
  "hex_digit_value c =
     (let n = of_char c :: nat in
      if n \<le> 57 then n - 48 else if 97 \<le> n then n - 87 else n - 55)"

definition hex_value :: "string \<Rightarrow> nat" where
  "hex_value ds = foldl (\<lambda>n c. 16 * n + hex_digit_value c) 0 ds"

definition hex_digits :: "string \<Rightarrow> bool" where
  "hex_digits ds = (ds \<noteq> [] \<and> list_all is_hex_digit ds)"


text \<open>
  The declaration the spec asks for a method: named \<open><contract>.<method>\<close>, with the
  method's description, the read or the write factory by the read-only flag, and the
  given argument list.
\<close>

definition synthesized ::
  "string \<Rightarrow> ABIMethod \<Rightarrow> CommandArg list \<Rightarrow> CommandDeclaration" where
  "synthesized cname m params =
     \<lparr>decl_Name = cname @ ''.'' @ Name m, decl_Description = Description m,
      Instantiation = (if ReadOnly m then NewReadContractCommand else NewWriteContractCommand),
      Args = params, Hidden = False\<rparr>"

text \<open>The argument list \<open>ParseABIFields\<close> gives for a method's argument type, if both exist.\<close>

definition method_params :: "world \<Rightarrow> FileDescriptor \<Rightarrow> ABIMethod \<Rightarrow> CommandArg list option" where
  "method_params w fDesc m =
     (case ByName (Messages fDesc) (Argument m) of
        None \<Rightarrow> None
      | Some d \<Rightarrow> (case ParseABIFields w d of Inl _ \<Rightarrow> None | Inr ps \<Rightarrow> Some ps))"

section \<open>A concrete world and session\<close>

text \<open>
  One behaviour of the collaborators, to run the commands on: a token contract with a
  read-only \<open>balance_of\<close> at entry point \<open>0x10\<close> and a \<open>transfer\<close> at \<open>0x20\<close>, as in the
  spec's example scenario; \<open>broken.abi\<close> names an argument type its schema does not have,
  the schema set of \<open>two.abi\<close> holds two files and that of \<open>none.abi\<close> none.
\<close>

definition token_fd :: FileDescriptor where
  "token_fd =
     \<lparr>Path = ''token.proto'',
      Messages =
        [\<lparr>message_Name = ''balance_of_arguments'',
          Fields = [\<lparr>field_Name = ''owner'', field_Kind = BytesKind\<rparr>]\<rparr>,
         \<lparr>message_Name = ''balance_of_result'',
          Fields = [\<lparr>field_Name = ''value'', field_Kind = Uint64Kind\<rparr>]\<rparr>,
         \<lparr>message_Name = ''transfer_arguments'',
          Fields = [\<lparr>field_Name = ''from'', field_Kind = BytesKind\<rparr>,
                    \<lparr>field_Name = ''to'', field_Kind = BytesKind\<rparr>,
                    \<lparr>field_Name = ''value'', field_Kind = Uint64Kind\<rparr>]\<rparr>,
         \<lparr>message_Name = ''transfer_result'', Fields = []\<rparr>]\<rparr>"

definition balance_of :: ABIMethod where
  "balance_of =
     \<lparr>Name = ''balance_of'', Description = ''Balance of an owner'', EntryPoint = ''0x10'',
      Argument = ''balance_of_arguments'', Return = ''balance_of_result'', ReadOnly = True\<rparr>"

definition transfer :: ABIMethod where
  "transfer =
     \<lparr>Name = ''transfer'', Description = ''Transfer tokens'', EntryPoint = ''0x20'',
      Argument = ''transfer_arguments'', Return = ''transfer_result'', ReadOnly = False\<rparr>"

definition mint :: ABIMethod where
  "mint =
     \<lparr>Name = ''mint'', Description = ''Mint tokens'', EntryPoint = ''0x30'',
      Argument = ''mint_arguments'', Return = ''mint_result'', ReadOnly = False\<rparr>"

definition token_abi :: ABI where
  "token_abi = \<lparr>Methods = [balance_of, transfer], Types = [10]\<rparr>"

definition broken_abi :: ABI where
  "broken_abi = \<lparr>Methods = [balance_of, mint], Types = [10]\<rparr>"

definition two_files_abi :: ABI where
  "two_files_abi = \<lparr>Methods = [balance_of], Types = [11]\<rparr>"

definition no_file_abi :: ABI where
  "no_file_abi = \<lparr>Methods = [balance_of], Types = [12]\<rparr>"

text \<open>Pairs of hexadecimal digits to bytes.\<close>

fun hex_decode :: "string \<Rightarrow> bytes option" where
  "hex_decode [] = Some []"
| "hex_decode [c] = None"
| "hex_decode (h # l # cs) =
     (if is_hex_digit h \<and> is_hex_digit l
      then map_option ((#) (of_nat (16 * hex_digit_value h + hex_digit_value l))) (hex_decode cs)
      else None)"

definition example_files :: "string list" where
  "example_files = [''token.abi'', ''broken.abi'', ''two.abi'', ''none.abi'', ''wallet.dat'']"

definition example_world :: world where
  "example_world =
     \<lparr>os_Open = (\<lambda>f. if f \<in> set example_files
                      then Inr f else Inl (Opaque ''open: no such file or directory'')),
      os_Stat_IsNotExist = (\<lambda>f. f \<notin> set example_files),
      os_Create = (\<lambda>f. Inr f),
      ioutil_ReadAll = (\<lambda>f. if f = ''token.abi'' then Inr [1]
                            else if f = ''broken.abi'' then Inr [2]
                            else if f = ''two.abi'' then Inr [3]
                            else if f = ''none.abi'' then Inr [4] else Inr []),
      json_Unmarshal = (\<lambda>b. if b = [1] then Inr token_abi
                            else if b = [2] then Inr broken_abi
                            else if b = [3] then Inr two_files_abi
                            else if b = [4] then Inr no_file_abi
                            else Inl (Opaque ''unexpected end of JSON input'')),
      proto_Unmarshal_FileDescriptorSet =
        (\<lambda>b. if b = [10] then Inr [token_fd]
              else if b = [11] then Inr [token_fd, token_fd\<lparr>Path := ''other.proto''\<rparr>]
              else if b = [12] then Inr []
              else Inl (Opaque ''proto: cannot parse invalid wire-format data'')),
      NewFiles = (\<lambda>fds. Inr fds),
      ParseABIFields = (\<lambda>d. Inr (map (\<lambda>f. NewCommandArg (field_Name f) String) (Fields d))),
      ParseResultToMessage = (\<lambda>pr cs. Inr (DynamicMessage (CommandName pr) [])),
      proto_Marshal = (\<lambda>m. Inr []),
      proto_Unmarshal = (\<lambda>b md. Inr (DynamicMessage (message_Name md) [(''value'', b)])),
      prototext_Marshal = (\<lambda>m. Inr ''value: 500''),
      HexStringToBytes = (\<lambda>s. case hex_decode (drop 2 s) of
                                None \<Rightarrow> Inl (Opaque ''encoding/hex: invalid byte'')
                              | Some b \<Rightarrow> Inr b),
      ReadContract = (\<lambda>args cid ep. Inr [1, 244]),
      WriteMessageContract = (\<lambda>m k cid ep. Inr ()),
      Call = (\<lambda>p r. Inr [0, 0, 0, 0, 0, 0, 1, 244]),
      Serialize = (\<lambda>s. map (\<lambda>c. of_nat (of_char c)) s),
      DeserializeUInt64 = (\<lambda>b. Inr 500),
      SatoshiToDecimal = (\<lambda>n p. Inr ''0.000005''),
      GenerateKoinosKey = Inr (KoinosKey [7]),
      CreateWalletFile = (\<lambda>f p b. None),
      ReadWalletFile = (\<lambda>f p. if f = ''wallet.dat'' \<and> p = ''secret'' then Inr [7]
                              else Inl (Opaque ''cipher: message authentication failed'')),
      NewKoinosKeysFromBytes = (\<lambda>b. if b = [] then Inl (Opaque ''invalid private key'')
                                     else Inr (KoinosKey b)),
      key_Address = (\<lambda>k. ''1ExampleAddress''),
      key_Private = (\<lambda>k. ''5ExamplePrivate'')\<rparr>"

text \<open>The environment at start: no wallet open, no contract registered, the static commands.\<close>

definition ee_start :: ExecutionEnvironment where
  "ee_start =
     \<lparr>KoinContractID = Some [0], KoinBalanceOfEntry = 21, Key = None,
      Contracts = Map.empty, Commands = BuildCommands\<rparr>"

text \<open>The environment after \<open>register token 0x1234 token.abi\<close>.\<close>

definition token_info :: "string \<Rightarrow> ContractInfo" where
  "token_info address =
     \<lparr>contract_Name = ''token'', contract_Address = address, contract_ABI = token_abi,
      contract_FileDescriptor = token_fd\<rparr>"

definition token_commands :: "CommandDeclaration list" where
  "token_commands =
     [synthesized ''token'' balance_of [NewCommandArg ''owner'' String],
      synthesized ''token'' transfer
        [NewCommandArg ''from'' String, NewCommandArg ''to'' String,
         NewCommandArg ''value'' String]]"

definition ee_token :: "string \<Rightarrow> ExecutionEnvironment" where
  "ee_token address =
     ee_start\<lparr>Contracts := [''token'' \<mapsto> token_info address],
              Commands := BuildCommands @ token_commands\<rparr>"

text \<open>
  The environment after \<open>register token 0x1234 <file>\<close>, for an ABI document that
  is the token ABI with every entry point written as \<open>ep\<close>.
\<close>

definition entry_abi :: "string \<Rightarrow> ABI" where
  "entry_abi ep =
     \<lparr>Methods = [balance_of\<lparr>EntryPoint := ep\<rparr>, transfer\<lparr>EntryPoint := ep\<rparr>], Types = [10]\<rparr>"

definition ee_entry :: "string \<Rightarrow> ExecutionEnvironment" where
  "ee_entry ep =
     ee_start\<lparr>Contracts := [''token'' \<mapsto> (token_info ''0x1234'')\<lparr>contract_ABI := entry_abi ep\<rparr>],
              Commands := BuildCommands @ token_commands\<rparr>"



section \<open>Properties\<close>

subsection \<open>Unfolding the concrete session\<close>

lemmas example_defs = example_world_def example_files_def token_abi_def broken_abi_def
  two_files_abi_def no_file_abi_def token_fd_def balance_of_def transfer_def mint_def
  ee_start_def ee_token_def token_info_def token_commands_def BuildCommands_def
  synthesized_def NewCommandDeclaration_def NewCommandArg_def

lemmas registry_defs = Contains_def Add_def discard_error_def ByName_def AddCommand_def
  loaded_files_def GetFromMethodName_def GetMethod_def GetMethodReturn_def
  splitMethodName_def AddMessage_def NewExecutionResult_def

lemmas entry_defs = entryPointOf_def ParseInt_def ParseUint_def digit_val_def uint32_def
  is_hex_digit_def hex_digit_value_def

subsection \<open>The entry point of a method\<close>

lemma digit_val_hex:
  "is_hex_digit c \<Longrightarrow> digit_val c = Some (hex_digit_value c) \<and> hex_digit_value c < 16"
  by (auto simp: is_hex_digit_def digit_val_def hex_digit_value_def Let_def)


lemma hex_fold_ge: "n \<le> foldl (\<lambda>n c. 16 * n + hex_digit_value c) n ds"
proof (induction ds arbitrary: n)
  case Nil
  show ?case by simp
next
  case (Cons c cs)
  have "n \<le> 16 * n + hex_digit_value c" by simp
  also have "\<dots> \<le> foldl (\<lambda>n c. 16 * n + hex_digit_value c) (16 * n + hex_digit_value c) cs"
    by (rule Cons.IH)
  finally show ?case by simp
qed

lemma parse_digits_hex:
  "list_all is_hex_digit ds \<Longrightarrow> n \<le> M \<Longrightarrow>
   parse_digits 16 M n ds =
     (if foldl (\<lambda>n c. 16 * n + hex_digit_value c) n ds \<le> M
      then Inr (foldl (\<lambda>n c. 16 * n + hex_digit_value c) n ds) else Inl ErrRange)"
proof (induction ds arbitrary: n)
  case Nil
  then show ?case by simp
next
  case (Cons c cs)
  from Cons.prems have c: "digit_val c = Some (hex_digit_value c)" "hex_digit_value c < 16"
    and cs: "list_all is_hex_digit cs"
    by (simp_all add: digit_val_hex)
  show ?case
  proof (cases "n * 16 + hex_digit_value c > M")
    case True
    moreover have "16 * n + hex_digit_value c
        \<le> foldl (\<lambda>n c. 16 * n + hex_digit_value c) (16 * n + hex_digit_value c) cs"
      by (rule hex_fold_ge)
    ultimately show ?thesis using c by (simp add: mult.commute)
  next
    case False
    then have "n * 16 + hex_digit_value c \<le> M" by simp
    from Cons.IH [OF cs this] False show ?thesis using c by (simp add: mult.commute)
  qed
qed






text \<open>
  The slice \<open>[2:]\<close> panics on a string of fewer than two bytes; after a two-byte prefix
  the entry point is what \<open>ParseInt\<close> makes of the rest; a run of hexadecimal digits
  after a minus sign is read as the negative number; a rest that is empty, or holds a
  character that is neither a hexadecimal digit nor a sign, is not a number.
\<close>

lemma entryPointOf_short:
  "length ep < 2 \<Longrightarrow> entryPointOf ep = Panic ''slice bounds out of range''"
  by (simp add: entryPointOf_def)


lemma ParseInt_negative_hex:
  assumes "hex_digits ds" and "hex_value ds \<le> 2 ^ 31"
  shows "ParseInt (CHR ''-'' # ds) 16 32 = Inr (- int (hex_value ds))"
proof -
  from assms(1) have ne: "ds \<noteq> []" and all: "list_all is_hex_digit ds"
    by (simp_all add: hex_digits_def)
  have "ParseUint ds 16 32 = Inr (hex_value ds)"
    using ne assms(2) parse_digits_hex [OF all, of 0 "2 ^ 32 - 1"]
    by (simp add: ParseUint_def hex_value_def)
  with assms(2) show ?thesis
    by (simp add: ParseInt_def)
qed



subsection \<open>Registration\<close>

lemma AddCommand_fresh:
  "decl_Name d \<notin> set (map decl_Name cmds) \<Longrightarrow>
   discard_error cmds (AddCommand d cmds) = cmds @ [d]"
  by (simp add: AddCommand_def discard_error_def)

lemma register_methods_step:
  "method_params w fDesc m = Some ps \<Longrightarrow>
   register_methods w cname fDesc (m # rest) cmds =
     register_methods w cname fDesc rest
       (discard_error cmds (AddCommand (synthesized cname m ps) cmds))"
  by (auto simp: method_params_def synthesized_def NewCommandDeclaration_def
      split: option.splits sum.splits)

lemma register_methods_stop:
  "method_params w fDesc m = None \<Longrightarrow>
   \<exists>e. register_methods w cname fDesc (m # rest) cmds = (Some e, cmds) \<and> error_is e ErrInvalidABI"
  by (auto simp: method_params_def split: option.splits sum.splits)

lemma register_methods_all:
  assumes "list_all (\<lambda>m. method_params w fDesc m \<noteq> None) ms"
    and "distinct (map Name ms)"
    and "list_all (\<lambda>m. cname @ ''.'' @ Name m \<notin> set (map decl_Name cmds)) ms"
  shows "register_methods w cname fDesc ms cmds =
     (None, cmds @ map (\<lambda>m. synthesized cname m (the (method_params w fDesc m))) ms)"
  using assms
proof (induction ms arbitrary: cmds)
  case Nil
  show ?case by simp
next
  case (Cons m ms)
  from Cons.prems(1) obtain ps where ps: "method_params w fDesc m = Some ps"
    and rest: "list_all (\<lambda>m. method_params w fDesc m \<noteq> None) ms"
    by auto
  let ?d = "synthesized cname m ps"
  from Cons.prems(3) have fresh: "decl_Name ?d \<notin> set (map decl_Name cmds)"
    by (simp add: synthesized_def)
  from Cons.prems(2) have dist: "distinct (map Name ms)" and notin: "Name m \<notin> set (map Name ms)"
    by simp_all
  have later: "list_all (\<lambda>m'. cname @ ''.'' @ Name m' \<notin> set (map decl_Name (cmds @ [?d]))) ms"
    using Cons.prems(3) notin
    by (auto simp: list_all_iff synthesized_def image_iff)
  show ?case
    using Cons.IH [OF rest dist later] ps
    by (simp add: register_methods_step [OF ps] AddCommand_fresh [OF fresh]
        del: register_methods.simps)
qed

lemma RegisterExecute_success:
  assumes "\<not> Contains (Contracts ee) name"
    and "os_Open w abiFilename = Inr jsonFile"
    and "ioutil_ReadAll w jsonFile = Inr jsonBytes"
    and "json_Unmarshal w jsonBytes = Inr abi"
    and "proto_Unmarshal_FileDescriptorSet w (Types abi) = Inr fds"
    and "NewFiles w fds = Inr [fDesc]"
    and "register_methods w name fDesc (Methods abi) (Commands ee) = (None, cmds)"
  shows "RegisterExecute w name address abiFilename ee =
     (Ok \<lparr>Message = [''Contract '' @ [CHR 0x27] @ name @ [CHR 0x27] @ '' at address ''
                        @ address @ '' registered.'']\<rparr>,
      ee\<lparr>Contracts := (Contracts ee)(name \<mapsto>
             \<lparr>contract_Name = name, contract_Address = address, contract_ABI = abi,
              contract_FileDescriptor = fDesc\<rparr>),
         Commands := cmds\<rparr>, [])"
  using assms
  by (simp add: RegisterExecute_def loaded_files_def Add_def discard_error_def AddMessage_def
      NewExecutionResult_def)

text \<open>
  A registration that reaches the loop over the methods has stored the contract already:
  when a method's argument type is missing or does not compile, the command fails with
  \<open>InvalidABI\<close> and the registry holds the contract.
\<close>

lemma register_methods_fails:
  "\<not> list_all (\<lambda>m. method_params w fDesc m \<noteq> None) ms \<Longrightarrow>
   \<exists>e cmds'. register_methods w cname fDesc ms cmds = (Some e, cmds') \<and>
     error_is e ErrInvalidABI"
proof (induction ms arbitrary: cmds)
  case Nil
  then show ?case by simp
next
  case (Cons m ms)
  show ?case
  proof (cases "method_params w fDesc m")
    case None
    from register_methods_stop [OF this] show ?thesis by blast
  next
    case (Some ps)
    with Cons.prems have "\<not> list_all (\<lambda>m. method_params w fDesc m \<noteq> None) ms"
      by simp
    from Cons.IH [OF this] show ?thesis
      by (simp add: register_methods_step [OF Some] del: register_methods.simps)
  qed
qed

lemma RegisterExecute_fails_after_Add:
  assumes "\<not> Contains (Contracts ee) name"
    and "os_Open w abiFilename = Inr jsonFile"
    and "ioutil_ReadAll w jsonFile = Inr jsonBytes"
    and "json_Unmarshal w jsonBytes = Inr abi"
    and "proto_Unmarshal_FileDescriptorSet w (Types abi) = Inr fds"
    and "NewFiles w fds = Inr [fDesc]"
    and "\<not> list_all (\<lambda>m. method_params w fDesc m \<noteq> None) (Methods abi)"
  shows "\<exists>e ee'. RegisterExecute w name address abiFilename ee = (Err e, ee', []) \<and>
     error_is e ErrInvalidABI \<and> Contains (Contracts ee') name"
proof -
  from register_methods_fails [OF assms(7)] obtain e cmds' where
    loop: "register_methods w name fDesc (Methods abi) (Commands ee) = (Some e, cmds')"
    and e: "error_is e ErrInvalidABI"
    by blast
  from assms(1-6) loop have "RegisterExecute w name address abiFilename ee =
     (Err e, ee\<lparr>Contracts := (Contracts ee)(name \<mapsto>
             \<lparr>contract_Name = name, contract_Address = address, contract_ABI = abi,
              contract_FileDescriptor = fDesc\<rparr>),
         Commands := cmds'\<rparr>, [])"
    by (simp add: RegisterExecute_def loaded_files_def Add_def discard_error_def)
  with e show ?thesis by (simp add: Contains_def)
qed

text \<open>
  C1. \<open>register token 0x1234 broken.abi\<close>, where the second method of the ABI names an
  argument type the schema does not have: the command fails with \<open>InvalidABI\<close>, and the
  environment it leaves holds the contract \<open>token\<close> and the command
  \<open>token.balance_of\<close> of the first method. The registration is not atomic.
\<close>

theorem register_broken_abi_leaves_contract:
  "Execute example_world (RegisterCommand ''token'' ''0x1234'' ''broken.abi'') ee_start
     = (Err (Wrapped ErrInvalidABI ''could not find type mint_arguments''),
        ee_start\<lparr>Contracts := [''token'' \<mapsto> (token_info ''0x1234'')\<lparr>contract_ABI := broken_abi\<rparr>],
                 Commands := BuildCommands
                   @ [synthesized ''token'' balance_of [NewCommandArg ''owner'' String]]\<rparr>,
        [])"
  by (simp add: RegisterExecute_def example_defs registry_defs)

text \<open>
  C5. When the name is new, the ABI file reads and decodes, its schema set holds exactly
  one file, every method's argument type is in it and compiles to an argument list, and
  the qualified names are new to the command set and differ from each other, then
  registration succeeds, stores the contract, keeps the commands that were there and
  appends one declaration per method, in order: the i-th is named
  \<open><contract>.<method_i>\<close>, has the method's description, and its factory is the
  read-contract command if the method is read-only and the write-contract command
  otherwise.
\<close>

theorem register_installs_commands:
  assumes "\<not> Contains (Contracts ee) name"
    and "os_Open w abiFilename = Inr jsonFile"
    and "ioutil_ReadAll w jsonFile = Inr jsonBytes"
    and "json_Unmarshal w jsonBytes = Inr abi"
    and "proto_Unmarshal_FileDescriptorSet w (Types abi) = Inr fds"
    and "NewFiles w fds = Inr [fDesc]"
    and "\<forall>m \<in> set (Methods abi). method_params w fDesc m \<noteq> None"
    and "distinct (map Name (Methods abi))"
    and "\<forall>m \<in> set (Methods abi). name @ ''.'' @ Name m \<notin> set (map decl_Name (Commands ee))"
    and "Execute w (RegisterCommand name address abiFilename) ee = (out, ee', evs)"
  shows "(\<exists>r. out = Ok r) \<and>
     Contracts ee' name =
       Some \<lparr>contract_Name = name, contract_Address = address, contract_ABI = abi,
             contract_FileDescriptor = fDesc\<rparr> \<and>
     length (Commands ee') = length (Commands ee) + length (Methods abi) \<and>
     take (length (Commands ee)) (Commands ee') = Commands ee \<and>
     (\<forall>i < length (Methods abi).
        decl_Name (Commands ee' ! (length (Commands ee) + i))
          = name @ ''.'' @ Name (Methods abi ! i) \<and>
        decl_Description (Commands ee' ! (length (Commands ee) + i))
          = Description (Methods abi ! i) \<and>
        Instantiation (Commands ee' ! (length (Commands ee) + i))
          = (if ReadOnly (Methods abi ! i) then NewReadContractCommand
             else NewWriteContractCommand))"
proof -
  let ?new = "map (\<lambda>m. synthesized name m (the (method_params w fDesc m))) (Methods abi)"
  have loop: "register_methods w name fDesc (Methods abi) (Commands ee)
      = (None, Commands ee @ ?new)"
    using assms(7-9) by (intro register_methods_all) (simp_all add: list_all_iff)
  from RegisterExecute_success [OF assms(1-6) loop, of address] assms(10)
  have out: "out = Ok \<lparr>Message = [''Contract '' @ [CHR 0x27] @ name @ [CHR 0x27]
                        @ '' at address '' @ address @ '' registered.'']\<rparr>"
    and ee': "ee' = ee\<lparr>Contracts := (Contracts ee)(name \<mapsto>
             \<lparr>contract_Name = name, contract_Address = address, contract_ABI = abi,
              contract_FileDescriptor = fDesc\<rparr>),
         Commands := Commands ee @ ?new\<rparr>"
    by simp_all
  have cmds: "Commands ee' = Commands ee @ ?new"
    by (simp add: ee')
  have nth: "\<And>i. i < length (Methods abi) \<Longrightarrow>
      Commands ee' ! (length (Commands ee) + i)
        = synthesized name (Methods abi ! i) (the (method_params w fDesc (Methods abi ! i)))"
    by (simp add: cmds)
  show ?thesis
    using out by (simp add: nth) (simp add: ee' synthesized_def)
qed

theorem register_installs_commands_witness:
  "\<not> Contains (Contracts ee_start) ''token'' \<and>
   os_Open example_world ''token.abi'' = Inr ''token.abi'' \<and>
   ioutil_ReadAll example_world ''token.abi'' = Inr [1] \<and>
   json_Unmarshal example_world [1] = Inr token_abi \<and>
   proto_Unmarshal_FileDescriptorSet example_world (Types token_abi) = Inr [token_fd] \<and>
   NewFiles example_world [token_fd] = Inr [token_fd] \<and>
   list_all (\<lambda>m. method_params example_world token_fd m \<noteq> None) (Methods token_abi) \<and>
   distinct (map Name (Methods token_abi)) \<and>
   list_all (\<lambda>m. ''token'' @ ''.'' @ Name m \<notin> set (map decl_Name (Commands ee_start)))
     (Methods token_abi) \<and>
   length (Commands (ee_token ''0x1234'')) = length (Commands ee_start) + 2 \<and>
   decl_Name (Commands (ee_token ''0x1234'') ! (length (Commands ee_start) + 1))
     = ''token.transfer'' \<and>
   Instantiation (Commands (ee_token ''0x1234'') ! (length (Commands ee_start) + 1))
     = NewWriteContractCommand"
proof -
  have run: "Execute example_world (RegisterCommand ''token'' ''0x1234'' ''token.abi'') ee_start
      = (Ok \<lparr>Message = [''Contract '' @ [CHR 0x27] @ ''token'' @ [CHR 0x27]
                           @ '' at address 0x1234 registered.'']\<rparr>,
         ee_token ''0x1234'', [])"
    by (simp add: RegisterExecute_def example_defs registry_defs)
  have h1: "\<not> Contains (Contracts ee_start) ''token''"
    by (simp add: Contains_def ee_start_def)
  have h2: "os_Open example_world ''token.abi'' = Inr ''token.abi''"
    and h3: "ioutil_ReadAll example_world ''token.abi'' = Inr [1]"
    and h4: "json_Unmarshal example_world [1] = Inr token_abi"
    and h5: "proto_Unmarshal_FileDescriptorSet example_world (Types token_abi) = Inr [token_fd]"
    and h6: "NewFiles example_world [token_fd] = Inr [token_fd]"
    by (simp_all add: example_world_def example_files_def token_abi_def)
  have h7: "\<forall>m \<in> set (Methods token_abi). method_params example_world token_fd m \<noteq> None"
    by (simp add: method_params_def ByName_def example_defs)
  have h8: "distinct (map Name (Methods token_abi))"
    by (simp add: example_defs)
  have h9: "\<forall>m \<in> set (Methods token_abi).
      ''token'' @ ''.'' @ Name m \<notin> set (map decl_Name (Commands ee_start))"
    by (simp add: example_defs)
  note all = register_installs_commands [OF h1 h2 h3 h4 h5 h6 h7 h8 h9 run]
  from all have len: "length (Commands (ee_token ''0x1234''))
      = length (Commands ee_start) + length (Methods token_abi)"
    by blast
  from all have "\<forall>i < length (Methods token_abi).
      decl_Name (Commands (ee_token ''0x1234'') ! (length (Commands ee_start) + i))
        = ''token'' @ ''.'' @ Name (Methods token_abi ! i) \<and>
      decl_Description (Commands (ee_token ''0x1234'') ! (length (Commands ee_start) + i))
        = Description (Methods token_abi ! i) \<and>
      Instantiation (Commands (ee_token ''0x1234'') ! (length (Commands ee_start) + i))
        = (if ReadOnly (Methods token_abi ! i) then NewReadContractCommand
           else NewWriteContractCommand)"
    by blast
  note each = this [rule_format, of 1]
  have "1 < length (Methods token_abi)"
    by (simp add: token_abi_def)
  note second = each [OF this]
  have "length (Commands (ee_token ''0x1234'')) = length (Commands ee_start) + 2 \<and>
    decl_Name (Commands (ee_token ''0x1234'') ! (length (Commands ee_start) + 1))
     = ''token.transfer'' \<and>
    Instantiation (Commands (ee_token ''0x1234'') ! (length (Commands ee_start) + 1))
     = NewWriteContractCommand"
    using len second by (simp add: token_abi_def transfer_def)
  with h1 h2 h3 h4 h5 h6 h7 h8 h9 show ?thesis
    by (simp add: list_all_iff)
qed

text \<open>
  C6. Registering under a name the registry already holds fails with the contract error
  "already exists", and the whole environment (registry, the contract's entry, the
  command set) is as before; nothing outside is called.
\<close>

theorem register_existing_name:
  "Contains (Contracts ee) name \<Longrightarrow>
   Execute w (RegisterCommand name address abiFilename) ee =
     (Err (Wrapped ErrContract (''contract '' @ name @ '' already exists'')), ee, []) \<and>
   error_is (Wrapped ErrContract (''contract '' @ name @ '' already exists'')) ErrContract"
  by (simp add: RegisterExecute_def)

theorem register_existing_name_witness:
  "Contains (Contracts (ee_token ''0x1234'')) ''token'' \<and>
   Execute example_world (RegisterCommand ''token'' ''0xabcd'' ''token.abi'') (ee_token ''0x1234'') =
     (Err (Wrapped ErrContract ''contract token already exists''), ee_token ''0x1234'', []) \<and>
   Contracts (ee_token ''0x1234'') ''token'' = Some (token_info ''0x1234'') \<and>
   Commands (ee_token ''0x1234'') = BuildCommands @ token_commands"
proof -
  have h: "Contains (Contracts (ee_token ''0x1234'')) ''token''"
    by (simp add: Contains_def ee_token_def)
  from register_existing_name [OF h, of example_world "''0xabcd''" "''token.abi''"] h
  show ?thesis by (simp add: ee_token_def)
qed

text \<open>
  C7. Once the name is new and the ABI document is read and decoded: if the schema-set
  bytes do not decode, or the decoded set does not load as exactly one file (none, or
  more than one), registration fails with \<open>InvalidABI\<close> and the environment is as
  before; and the contract is stored only if the set loaded as exactly one file, whose
  descriptor the stored contract holds.
\<close>

theorem register_rejects_schema_set:
  assumes "\<not> Contains (Contracts ee) name"
    and "os_Open w abiFilename = Inr jsonFile"
    and "ioutil_ReadAll w jsonFile = Inr jsonBytes"
    and "json_Unmarshal w jsonBytes = Inr abi"
    and "Execute w (RegisterCommand name address abiFilename) ee = (out, ee', evs)"
  shows "(\<forall>e. proto_Unmarshal_FileDescriptorSet w (Types abi) = Inl e \<longrightarrow>
            out = Err (WrappedErr ErrInvalidABI e) \<and> ee' = ee) \<and>
     (\<forall>fds. proto_Unmarshal_FileDescriptorSet w (Types abi) = Inr fds \<and>
            length (loaded_files w fds) \<noteq> 1 \<longrightarrow>
            out = Err (Wrapped ErrInvalidABI
                    (''expected 1 descriptor, got '' @ decimal (length (loaded_files w fds)))) \<and>
            ee' = ee) \<and>
     (Contains (Contracts ee') name \<longrightarrow>
        (\<exists>fds fDesc. proto_Unmarshal_FileDescriptorSet w (Types abi) = Inr fds \<and>
           loaded_files w fds = [fDesc] \<and>
           map_option contract_FileDescriptor (Contracts ee' name) = Some fDesc))"
proof -
  have decode: "out = Err (WrappedErr ErrInvalidABI e) \<and> ee' = ee"
    if "proto_Unmarshal_FileDescriptorSet w (Types abi) = Inl e" for e
    using that assms by (auto simp: RegisterExecute_def)
  have count: "out = Err (Wrapped ErrInvalidABI
      (''expected 1 descriptor, got '' @ decimal (length (loaded_files w fds)))) \<and> ee' = ee"
    if "proto_Unmarshal_FileDescriptorSet w (Types abi) = Inr fds"
      and "length (loaded_files w fds) \<noteq> 1" for fds
    using that assms by (auto simp: RegisterExecute_def Let_def)
  have stored: "\<exists>fds fDesc. proto_Unmarshal_FileDescriptorSet w (Types abi) = Inr fds \<and>
      loaded_files w fds = [fDesc] \<and>
      map_option contract_FileDescriptor (Contracts ee' name) = Some fDesc"
    if reg: "Contains (Contracts ee') name"
  proof (cases "proto_Unmarshal_FileDescriptorSet w (Types abi)")
    case (Inl e)
    from decode [OF this] reg assms(1) show ?thesis by simp
  next
    case (Inr fds)
    show ?thesis
    proof (cases "length (loaded_files w fds) = 1")
      case False
      from count [OF Inr this] reg assms(1) show ?thesis by simp
    next
      case True
      then obtain fDesc where one: "loaded_files w fds = [fDesc]"
        by (cases "loaded_files w fds") auto
      with Inr assms have "Contracts ee' name =
          Some \<lparr>contract_Name = name, contract_Address = address, contract_ABI = abi,
                contract_FileDescriptor = fDesc\<rparr>"
        by (auto simp: RegisterExecute_def Let_def Add_def discard_error_def
            split: option.splits)
      with Inr one show ?thesis by simp
    qed
  qed
  have a: "\<forall>e. proto_Unmarshal_FileDescriptorSet w (Types abi) = Inl e \<longrightarrow>
      out = Err (WrappedErr ErrInvalidABI e) \<and> ee' = ee"
    by (intro allI impI) (rule decode)
  have b: "\<forall>fds. proto_Unmarshal_FileDescriptorSet w (Types abi) = Inr fds \<and>
      length (loaded_files w fds) \<noteq> 1 \<longrightarrow>
      out = Err (Wrapped ErrInvalidABI
              (''expected 1 descriptor, got '' @ decimal (length (loaded_files w fds)))) \<and>
      ee' = ee"
    by (intro allI impI, elim conjE) (rule count)
  have c: "Contains (Contracts ee') name \<longrightarrow>
      (\<exists>fds fDesc. proto_Unmarshal_FileDescriptorSet w (Types abi) = Inr fds \<and>
         loaded_files w fds = [fDesc] \<and>
         map_option contract_FileDescriptor (Contracts ee' name) = Some fDesc)"
    by (intro impI) (rule stored)
  show ?thesis
    by (rule conjI [OF a conjI [OF b c]])
qed

theorem register_rejects_schema_set_witness:
  "\<not> Contains (Contracts ee_start) ''token'' \<and>
   os_Open example_world ''two.abi'' = Inr ''two.abi'' \<and>
   ioutil_ReadAll example_world ''two.abi'' = Inr [3] \<and>
   json_Unmarshal example_world [3] = Inr two_files_abi \<and>
   proto_Unmarshal_FileDescriptorSet example_world (Types two_files_abi)
     = Inr [token_fd, token_fd\<lparr>Path := ''other.proto''\<rparr>] \<and>
   length (loaded_files example_world [token_fd, token_fd\<lparr>Path := ''other.proto''\<rparr>]) = 2 \<and>
   Execute example_world (RegisterCommand ''token'' ''0x1234'' ''two.abi'') ee_start
     = (Err (Wrapped ErrInvalidABI ''expected 1 descriptor, got 2''), ee_start, []) \<and>
   os_Open example_world ''none.abi'' = Inr ''none.abi'' \<and>
   ioutil_ReadAll example_world ''none.abi'' = Inr [4] \<and>
   json_Unmarshal example_world [4] = Inr no_file_abi \<and>
   proto_Unmarshal_FileDescriptorSet example_world (Types no_file_abi) = Inr [] \<and>
   length (loaded_files example_world []) = 0 \<and>
   Execute example_world (RegisterCommand ''token'' ''0x1234'' ''none.abi'') ee_start
     = (Err (Wrapped ErrInvalidABI ''expected 1 descriptor, got 0''), ee_start, [])"
proof -
  have h1: "\<not> Contains (Contracts ee_start) ''token''"
    by (simp add: Contains_def ee_start_def)
  have two: "os_Open example_world ''two.abi'' = Inr ''two.abi''"
    "ioutil_ReadAll example_world ''two.abi'' = Inr [3]"
    "json_Unmarshal example_world [3] = Inr two_files_abi"
    by (simp_all add: example_world_def example_files_def)
  have two_set: "proto_Unmarshal_FileDescriptorSet example_world (Types two_files_abi)
     = Inr [token_fd, token_fd\<lparr>Path := ''other.proto''\<rparr>]"
    "length (loaded_files example_world [token_fd, token_fd\<lparr>Path := ''other.proto''\<rparr>]) = 2"
    by (simp_all add: example_world_def two_files_abi_def loaded_files_def)
  have none: "os_Open example_world ''none.abi'' = Inr ''none.abi''"
    "ioutil_ReadAll example_world ''none.abi'' = Inr [4]"
    "json_Unmarshal example_world [4] = Inr no_file_abi"
    by (simp_all add: example_world_def example_files_def)
  have none_set: "proto_Unmarshal_FileDescriptorSet example_world (Types no_file_abi) = Inr []"
    "length (loaded_files example_world []) = 0"
    by (simp_all add: example_world_def no_file_abi_def loaded_files_def)
  obtain out ee' evs where run:
    "Execute example_world (RegisterCommand ''token'' ''0x1234'' ''two.abi'') ee_start
       = (out, ee', evs)"
    by (metis prod_cases3)
  have evs: "evs = []"
    using run by (simp add: RegisterExecute_def example_defs registry_defs)
  from register_rejects_schema_set [OF h1 two run] two_set
  have r2: "out = Err (Wrapped ErrInvalidABI ''expected 1 descriptor, got 2'')" "ee' = ee_start"
    by simp_all
  obtain out0 ee0 evs0 where run0:
    "Execute example_world (RegisterCommand ''token'' ''0x1234'' ''none.abi'') ee_start
       = (out0, ee0, evs0)"
    by (metis prod_cases3)
  have evs0: "evs0 = []"
    using run0 by (simp add: RegisterExecute_def example_defs registry_defs)
  from register_rejects_schema_set [OF h1 none run0] none_set
  have r0: "out0 = Err (Wrapped ErrInvalidABI ''expected 1 descriptor, got 0'')" "ee0 = ee_start"
    by simp_all
  from h1 two two_set none none_set run evs r2 run0 evs0 r0 show ?thesis
    by simp
qed

subsection \<open>Read and write contract commands\<close>


text \<open>
  C2. With no wallet open, the write command \<open>token.transfer\<close> does not fail with
  \<open>WalletClosed\<close>: it calls \<open>WriteMessageContract\<close> of the RPC client with a \<open>nil\<close> key,
  and reports what the client answers.
\<close>

theorem write_without_wallet_calls_network:
  "Key (ee_token ''0x1234'') = None \<and>
   Execute example_world
     (WriteContractCommand \<lparr>CommandName = ''token.transfer'',
        ParseArgs = [''from'' \<mapsto> ''0xaa'', ''to'' \<mapsto> ''0xbb'', ''value'' \<mapsto> ''5'']\<rparr>)
     (ee_token ''0x1234'')
     = (Ok \<lparr>Message = [''Transaction submitted to contract '' @ [CHR 0x27] @ ''token''
                          @ [CHR 0x27] @ '' at address 0x1234 .'']\<rparr>,
        ee_token ''0x1234'',
        [EvWriteMessageContract (DynamicMessage ''token.transfer'' []) None [0x12, 0x34] 32])"
  by (simp add: WriteContractExecute_def example_defs registry_defs entry_defs)

text \<open>
  Registration stores the address as it was typed, without decoding it; and a contract
  command whose stored address does not decode panics, for any decoder.
\<close>

lemma RegisterExecute_stores_address_unread:
  assumes "RegisterExecute w name address abiFilename ee = (out, ee', evs)"
    and "Contracts ee' name \<noteq> Contracts ee name"
  shows "map_option contract_Address (Contracts ee' name) = Some address"
  using assms
  by (auto simp: RegisterExecute_def Let_def Add_def discard_error_def Contains_def
      split: if_splits sum.splits option.splits)


lemma ReadContractExecute_bad_address_panics:
  assumes "GetMethod (Contracts ee) (CommandName pr) = Some method"
    and "entryPointOf (EntryPoint method) = Ok entryPoint"
    and "ParseResultToMessage w pr (Contracts ee) = Inr msg"
    and "proto_Marshal w msg = Inr argBytes"
    and "GetFromMethodName (Contracts ee) (CommandName pr) = Some c"
    and "HexStringToBytes w (contract_Address c) = Inl e"
  shows "ReadContractExecute w pr ee = (Panic ''Invalid contract ID'', ee, [])"
  using assms by (simp add: ReadContractExecute_def)

lemma WriteContractExecute_bad_address_panics:
  assumes "GetMethod (Contracts ee) (CommandName pr) = Some method"
    and "entryPointOf (EntryPoint method) = Ok entryPoint"
    and "ParseResultToMessage w pr (Contracts ee) = Inr msg"
    and "GetFromMethodName (Contracts ee) (CommandName pr) = Some c"
    and "HexStringToBytes w (contract_Address c) = Inl e"
  shows "WriteContractExecute w pr ee = (Panic ''Invalid contract ID'', ee, [])"
  using assms by (simp add: WriteContractExecute_def)

text \<open>
  C3. \<open>register token not-hex token.abi\<close> succeeds and stores the address \<open>not-hex\<close>;
  after it, the read command \<open>token.balance_of\<close> and the write command
  \<open>token.transfer\<close> both panic with "Invalid contract ID" instead of returning an error.
\<close>

theorem unchecked_address_panics:
  "Execute example_world (RegisterCommand ''token'' ''not-hex'' ''token.abi'') ee_start
     = (Ok \<lparr>Message = [''Contract '' @ [CHR 0x27] @ ''token'' @ [CHR 0x27]
                          @ '' at address not-hex registered.'']\<rparr>,
        ee_token ''not-hex'', []) \<and>
   Execute example_world
     (ReadContractCommand \<lparr>CommandName = ''token.balance_of'',
        ParseArgs = [''owner'' \<mapsto> ''0xabcd'']\<rparr>) (ee_token ''not-hex'')
     = (Panic ''Invalid contract ID'', ee_token ''not-hex'', []) \<and>
   Execute example_world
     (WriteContractCommand \<lparr>CommandName = ''token.transfer'',
        ParseArgs = [''from'' \<mapsto> ''0xaa'', ''to'' \<mapsto> ''0xbb'', ''value'' \<mapsto> ''5'']\<rparr>)
     (ee_token ''not-hex'')
     = (Panic ''Invalid contract ID'', ee_token ''not-hex'', [])"
  by (simp add: RegisterExecute_def ReadContractExecute_def WriteContractExecute_def
      example_defs registry_defs entry_defs)




text \<open>
  Registration does not read the entry points: a document that decodes to the token ABI
  with its entry points written as \<open>ep\<close> is registered, and leaves \<open>ee_entry ep\<close>.
\<close>

lemma register_keeps_entry_point_unread:
  "Execute (example_world\<lparr>json_Unmarshal := (\<lambda>b. Inr (entry_abi ep))\<rparr>)
     (RegisterCommand ''token'' ''0x1234'' ''token.abi'') ee_start
   = (Ok \<lparr>Message = [''Contract '' @ [CHR 0x27] @ ''token'' @ [CHR 0x27]
                        @ '' at address 0x1234 registered.'']\<rparr>,
      ee_entry ep, [])"
  by (simp add: RegisterExecute_def example_defs registry_defs entry_abi_def ee_entry_def)




subsection \<open>What a command changes in the environment\<close>

lemma RegisterExecute_Key:
  "RegisterExecute w name address abiFilename ee = (out, ee', evs) \<Longrightarrow>
   Key ee' = Key ee \<and> KoinContractID ee' = KoinContractID ee \<and>
   KoinBalanceOfEntry ee' = KoinBalanceOfEntry ee \<and> evs = []"
  by (auto simp: RegisterExecute_def Let_def split: if_splits sum.splits option.splits)

lemma ReadContractExecute_frame:
  "ReadContractExecute w pr ee = (out, ee', evs) \<Longrightarrow> ee' = ee"
  by (auto simp: ReadContractExecute_def Let_def split: sum.splits option.splits outcome.splits)

lemma WriteContractExecute_frame:
  "WriteContractExecute w pr ee = (out, ee', evs) \<Longrightarrow> ee' = ee"
  by (auto simp: WriteContractExecute_def Let_def split: sum.splits option.splits outcome.splits)

lemma BalanceExecute_frame:
  "BalanceExecute w address ee = (out, ee', evs) \<Longrightarrow> ee' = ee"
  by (auto simp: BalanceExecute_def Let_def split: sum.splits option.splits)

lemma GenerateKeyExecute_frame:
  "GenerateKeyExecute w ee = (out, ee', evs) \<Longrightarrow> ee' = ee"
  by (auto simp: GenerateKeyExecute_def split: sum.splits)

lemma InfoExecute_frame:
  "InfoExecute w ee = (out, ee', evs) \<Longrightarrow> ee' = ee"
  by (auto simp: InfoExecute_def split: if_splits option.splits)

lemma OpenExecute_frame:
  "OpenExecute w filename password ee = (out, ee', evs) \<Longrightarrow>
   Contracts ee' = Contracts ee \<and> Commands ee' = Commands ee"
  by (auto simp: OpenExecute_def split: sum.splits)

lemma CreateExecute_frame:
  "CreateExecute w filename password ee = (out, ee', evs) \<Longrightarrow>
   Contracts ee' = Contracts ee \<and> Commands ee' = Commands ee"
  by (auto simp: CreateExecute_def split: if_splits sum.splits option.splits)

text \<open>
  C9. Whatever a command ends in: only the open and create commands change the key, only
  the register command changes the contract registry or the command set, and a
  read-contract command or the balance command leaves the whole environment as it was.
\<close>

theorem execute_frame:
  assumes "Execute w c ee = (out, ee', evs)"
  shows "(Key ee' \<noteq> Key ee \<longrightarrow> (\<exists>f p. c = OpenCommand f p \<or> c = CreateCommand f p)) \<and>
     (Contracts ee' \<noteq> Contracts ee \<or> Commands ee' \<noteq> Commands ee
        \<longrightarrow> (\<exists>n a f. c = RegisterCommand n a f)) \<and>
     ((\<exists>pr. c = ReadContractCommand pr) \<or> (\<exists>a. c = BalanceCommand a) \<longrightarrow> ee' = ee)"
proof (cases c)
  case (BalanceCommand a)
  with assms have "BalanceExecute w a ee = (out, ee', evs)" by simp
  from BalanceExecute_frame [OF this] BalanceCommand show ?thesis by simp
next
  case ExitCommand
  with assms show ?thesis by (auto simp: ExitExecute_def)
next
  case GenerateKeyCommand
  with assms have "GenerateKeyExecute w ee = (out, ee', evs)" by simp
  from GenerateKeyExecute_frame [OF this] GenerateKeyCommand show ?thesis by simp
next
  case (CreateCommand f p)
  with assms have "CreateExecute w f p ee = (out, ee', evs)" by simp
  from CreateExecute_frame [OF this] CreateCommand show ?thesis by simp
next
  case InfoCommand
  with assms have "InfoExecute w ee = (out, ee', evs)" by simp
  from InfoExecute_frame [OF this] InfoCommand show ?thesis by simp
next
  case (OpenCommand f p)
  with assms have "OpenExecute w f p ee = (out, ee', evs)" by simp
  from OpenExecute_frame [OF this] OpenCommand show ?thesis by simp
next
  case (RegisterCommand n a f)
  with assms have "RegisterExecute w n a f ee = (out, ee', evs)" by simp
  from RegisterExecute_Key [OF this] RegisterCommand show ?thesis by simp
next
  case (ReadContractCommand pr)
  with assms have "ReadContractExecute w pr ee = (out, ee', evs)" by simp
  from ReadContractExecute_frame [OF this] ReadContractCommand show ?thesis by simp
next
  case (WriteContractCommand pr)
  with assms have "WriteContractExecute w pr ee = (out, ee', evs)" by simp
  from WriteContractExecute_frame [OF this] WriteContractCommand show ?thesis by simp
qed

theorem execute_frame_witness:
  "Execute example_world
     (ReadContractCommand \<lparr>CommandName = ''token.balance_of'',
                            ParseArgs = [''owner'' \<mapsto> ''0xabcd'']\<rparr>) (ee_token ''0x1234'')
     = (Ok \<lparr>Message = [''value: 500'']\<rparr>, ee_token ''0x1234'',
        [EvReadContract [] [0x12, 0x34] 16]) \<and>
   Execute example_world (BalanceCommand ''1ExampleAddress'') (ee_token ''0x1234'')
     = (Ok \<lparr>Message = [''0.000005 tKOIN'']\<rparr>, ee_token ''0x1234'',
        [EvCall ''chain.read_contract''
           \<lparr>req_ContractID = [0], req_EntryPoint = 21,
            req_Args = Serialize example_world ''1ExampleAddress''\<rparr>])"
proof -
  obtain out ee' evs where run: "Execute example_world
     (ReadContractCommand \<lparr>CommandName = ''token.balance_of'',
                            ParseArgs = [''owner'' \<mapsto> ''0xabcd'']\<rparr>) (ee_token ''0x1234'')
     = (out, ee', evs)"
    by (metis prod_cases3)
  from execute_frame [OF run] have same: "ee' = ee_token ''0x1234''"
    by simp
  have out: "out = Ok \<lparr>Message = [''value: 500'']\<rparr>"
    and evs: "evs = [EvReadContract [] [0x12, 0x34] 16]"
    using run
    by (simp_all add: ReadContractExecute_def example_defs registry_defs entryPointOf_def
        ParseInt_def ParseUint_def digit_val_def uint32_def is_hex_digit_def
        hex_digit_value_def)
  obtain out2 ee2 evs2 where run2:
    "Execute example_world (BalanceCommand ''1ExampleAddress'') (ee_token ''0x1234'')
       = (out2, ee2, evs2)"
    by (metis prod_cases3)
  from execute_frame [OF run2] have same2: "ee2 = ee_token ''0x1234''"
    by simp
  have out2: "out2 = Ok \<lparr>Message = [''0.000005 tKOIN'']\<rparr>"
    and evs2: "evs2 = [EvCall ''chain.read_contract''
           \<lparr>req_ContractID = [0], req_EntryPoint = 21,
            req_Args = Serialize example_world ''1ExampleAddress''\<rparr>]"
    using run2
    by (simp_all add: BalanceExecute_def example_defs AddMessage_def NewExecutionResult_def
        ReadContractCall_def KoinSymbol_def KoinPrecision_def)
  from run same out evs run2 same2 out2 evs2 show ?thesis by simp
qed

text \<open>
  C10. An open or create command that returns an error leaves the environment, and so
  the key, as it was; the key changes only on success, and then the wallet file was
  opened, read and the key built from its bytes (open), or the file did not exist, was
  created, a key generated and written to it (create), and the new key is that key.
\<close>

theorem wallet_key_set_last:
  assumes "c = OpenCommand filename password \<or> c = CreateCommand filename password"
    and "Execute w c ee = (out, ee', evs)"
  shows "((\<exists>e. out = Err e) \<longrightarrow> ee' = ee) \<and>
     (Key ee' \<noteq> Key ee \<longrightarrow> (\<exists>r. out = Ok r)) \<and>
     (c = OpenCommand filename password \<and> (\<exists>r. out = Ok r) \<longrightarrow>
        (\<exists>file keyBytes key.
           os_Open w filename = Inr file \<and> ReadWalletFile w file password = Inr keyBytes \<and>
           NewKoinosKeysFromBytes w keyBytes = Inr key \<and> ee' = ee\<lparr>Key := Some key\<rparr>)) \<and>
     (c = CreateCommand filename password \<and> (\<exists>r. out = Ok r) \<longrightarrow>
        (\<exists>file key.
           os_Stat_IsNotExist w filename \<and> os_Create w filename = Inr file \<and>
           GenerateKoinosKey w = Inr key \<and>
           CreateWalletFile w file password (PrivateBytes key) = None \<and>
           ee' = ee\<lparr>Key := Some key\<rparr> \<and>
           evs = [EvCreate filename, EvCreateWalletFile file password (PrivateBytes key)]))"
  using assms
proof (elim disjE)
  assume c: "c = OpenCommand filename password"
  with assms(2) have "OpenExecute w filename password ee = (out, ee', evs)" by simp
  then show ?thesis using c
    by (auto simp: OpenExecute_def split: sum.splits)
next
  assume c: "c = CreateCommand filename password"
  with assms(2) have "CreateExecute w filename password ee = (out, ee', evs)" by simp
  then show ?thesis using c
    by (auto simp: CreateExecute_def split: if_splits sum.splits option.splits)
qed

theorem wallet_key_set_last_witness:
  "Execute example_world (OpenCommand ''wallet.dat'' ''wrong'')
      (ee_start\<lparr>Key := Some (KoinosKey [9])\<rparr>)
     = (Err (Wrapped ErrWalletDecrypt ''check your password''),
        ee_start\<lparr>Key := Some (KoinosKey [9])\<rparr>, []) \<and>
   Execute example_world (CreateCommand ''wallet.dat'' ''secret'')
      (ee_start\<lparr>Key := Some (KoinosKey [9])\<rparr>)
     = (Err (Wrapped ErrWalletExists ''wallet.dat''),
        ee_start\<lparr>Key := Some (KoinosKey [9])\<rparr>, []) \<and>
   Execute example_world (OpenCommand ''wallet.dat'' ''secret'') ee_start
     = (Ok \<lparr>Message = [''Opened wallet: wallet.dat'']\<rparr>,
        ee_start\<lparr>Key := Some (KoinosKey [7])\<rparr>, [])"
proof -
  let ?ee = "ee_start\<lparr>Key := Some (KoinosKey [9])\<rparr>"
  obtain out1 ee1 evs1 where run1:
    "Execute example_world (OpenCommand ''wallet.dat'' ''wrong'') ?ee = (out1, ee1, evs1)"
    by (metis prod_cases3)
  then have o1: "out1 = Err (Wrapped ErrWalletDecrypt ''check your password'')" "evs1 = []"
    by (simp_all add: OpenExecute_def example_world_def example_files_def)
  from wallet_key_set_last [OF _ run1, of "''wallet.dat''" "''wrong''"] o1
  have k1: "ee1 = ?ee" by simp
  obtain out2 ee2 evs2 where run2:
    "Execute example_world (CreateCommand ''wallet.dat'' ''secret'') ?ee = (out2, ee2, evs2)"
    by (metis prod_cases3)
  then have o2: "out2 = Err (Wrapped ErrWalletExists ''wallet.dat'')" "evs2 = []"
    by (simp_all add: CreateExecute_def example_world_def example_files_def)
  from wallet_key_set_last [OF _ run2, of "''wallet.dat''" "''secret''"] o2
  have k2: "ee2 = ?ee" by simp
  obtain out3 ee3 evs3 where run3:
    "Execute example_world (OpenCommand ''wallet.dat'' ''secret'') ee_start = (out3, ee3, evs3)"
    by (metis prod_cases3)
  then have o3: "out3 = Ok \<lparr>Message = [''Opened wallet: wallet.dat'']\<rparr>" "evs3 = []"
    by (simp_all add: OpenExecute_def example_world_def example_files_def AddMessage_def
        NewExecutionResult_def)
  from wallet_key_set_last [OF _ run3, of "''wallet.dat''" "''secret''"] o3
  have k3: "ee3 = ee_start\<lparr>Key := Some (KoinosKey [7])\<rparr>"
    by (simp add: example_world_def example_files_def)
  from run1 o1 k1 run2 o2 k2 run3 o3 k3 show ?thesis by simp
qed

end
